theory Spec2Isabelle
  imports Complex_Main
begin

section \<open>Python values, text and numeric conversion\<close>

text \<open>
  The scoring and routing code reads loosely typed JSON payloads and database rows.
  A field is therefore a dynamically typed value: \<open>None\<close>, a boolean, an integer, a
  float or a text.  A finite float is the real number it denotes; where the scoring code
  computes with floats the results are rounded to binary64 by \<open>fl\<close> below, elsewhere
  the arithmetic is exact.  Containers (lists, dicts) as field values are outside the
  model.
\<close>

datatype pyfloat = Fin real | PInf | NInf | NaN

datatype pyval = PyNone | PyBool bool | PyInt int | PyFloat pyfloat | PyStr string

datatype error = ValueError | TypeError | OverflowError | KeyError | AttributeError

text \<open>Truthiness, as used by \<open>x or y\<close> and \<open>if not x\<close>.\<close>

fun truthy :: "pyval \<Rightarrow> bool" where
  "truthy PyNone = False"
| "truthy (PyBool b) = b"
| "truthy (PyInt n) = (n \<noteq> 0)"
| "truthy (PyFloat (Fin r)) = (r \<noteq> 0)"
| "truthy (PyFloat _) = True"
| "truthy (PyStr s) = (s \<noteq> [])"

definition py_or :: "pyval \<Rightarrow> pyval \<Rightarrow> pyval" where
  "py_or a b = (if truthy a then a else b)"

subsection \<open>Text: \<open>strip\<close>, \<open>lower\<close>\<close>

text \<open>
  Text is ASCII.  \<open>is_space\<close> is \<open>str.isspace\<close> on ASCII characters, the set that
  \<open>str.strip\<close> removes.  \<open>int\<close> and \<open>float\<close> skip only the six characters of C's
  \<open>isspace\<close> around a number, so the separators 28 to 31 are stripped by \<open>strip\<close> but
  rejected by the conversions.
\<close>

definition is_space :: "char \<Rightarrow> bool" where
  "is_space c = (let n = (of_char c :: nat) in (9 \<le> n \<and> n \<le> 13) \<or> (28 \<le> n \<and> n \<le> 32))"

definition strip :: "string \<Rightarrow> string" where
  "strip s = rev (dropWhile is_space (rev (dropWhile is_space s)))"

definition is_num_space :: "char \<Rightarrow> bool" where
  "is_num_space c = (let n = (of_char c :: nat) in (9 \<le> n \<and> n \<le> 13) \<or> n = 32)"

definition strip_num :: "string \<Rightarrow> string" where
  "strip_num s = rev (dropWhile is_num_space (rev (dropWhile is_num_space s)))"

definition lower_char :: "char \<Rightarrow> char" where
  "lower_char c =
     (case map_of (zip ''ABCDEFGHIJKLMNOPQRSTUVWXYZ'' ''abcdefghijklmnopqrstuvwxyz'') c of
        None \<Rightarrow> c
      | Some d \<Rightarrow> d)"

definition lower :: "string \<Rightarrow> string" where
  "lower s = map lower_char s"

subsection \<open>\<open>int(...)\<close> and \<open>float(...)\<close>\<close>

definition is_digit :: "char \<Rightarrow> bool" where
  "is_digit c = (let n = (of_char c :: nat) in 48 \<le> n \<and> n \<le> 57)"

definition digit_val :: "char \<Rightarrow> nat" where
  "digit_val c = of_char c - 48"

fun adjacent_us :: "string \<Rightarrow> bool" where
  "adjacent_us (a # b # cs) = ((a = CHR ''_'' \<and> b = CHR ''_'') \<or> adjacent_us (b # cs))"
| "adjacent_us _ = False"

text \<open>
  A digit group of a Python numeric literal given as text: decimal digits, where single
  underscores may separate digits.
\<close>

definition valid_digits :: "string \<Rightarrow> bool" where
  "valid_digits s = (s \<noteq> [] \<and> is_digit (hd s) \<and> is_digit (last s)
     \<and> list_all (\<lambda>c. is_digit c \<or> c = CHR ''_'') s \<and> \<not> adjacent_us s)"

definition digits_value :: "string \<Rightarrow> int" where
  "digits_value s = foldl (\<lambda>acc c. 10 * acc + int (digit_val c)) 0 (filter is_digit s)"

text \<open>An optional leading sign: the factor and the rest of the text.\<close>

fun split_sign :: "string \<Rightarrow> int \<times> string" where
  "split_sign (c # cs) =
     (if c = CHR ''-'' then (-1, cs) else if c = CHR ''+'' then (1, cs) else (1, c # cs))"
| "split_sign [] = (1, [])"

text \<open>
  \<open>int(s)\<close> for a text \<open>s\<close> (base 10).  A text of more than 4300 digits is rejected
  with \<open>ValueError\<close> (the default of \<open>sys.set_int_max_str_digits\<close>).
\<close>

definition int_of_string :: "string \<Rightarrow> error + int" where
  "int_of_string s =
     (let (sg, body) = split_sign (strip_num s)
      in if valid_digits body \<and> length (filter is_digit body) \<le> 4300
         then Inr (sg * digits_value body) else Inl ValueError)"

text \<open>
  Rounding to binary64 (round to nearest, ties to even).  \<open>norm_exp n \<bar>x\<bar> 0\<close> is the
  binary exponent \<open>e\<close> of \<open>x\<close>, with \<open>2 ^ e \<le> \<bar>x\<bar> < 2 ^ (e + 1)\<close>, found by halving or
  doubling at most \<open>n\<close> times; 1100 steps cover the whole binary64 range.  A value keeps
  53 significant bits, and no bit below \<open>2 ^ - 1074\<close> (gradual underflow).  \<open>fl\<close> is
  applied to values below the overflow threshold only; \<open>dbl_overflow\<close> is that
  threshold, from which on rounding gives infinity.
\<close>

fun norm_exp :: "nat \<Rightarrow> real \<Rightarrow> int \<Rightarrow> int" where
  "norm_exp 0 x e = e"
| "norm_exp (Suc n) x e =
     (if 2 \<le> x then norm_exp n (x / 2) (e + 1)
      else if x < 1 then norm_exp n (x * 2) (e - 1)
      else e)"

definition pow2 :: "int \<Rightarrow> real" where
  "pow2 e = (if 0 \<le> e then 2 ^ nat e else 1 / 2 ^ nat (- e))"

text \<open>\<open>py_round\<close> rounds to the nearest integer, a tie to the even one.\<close>

definition py_round :: "real \<Rightarrow> int" where
  "py_round x =
     (let f = \<lfloor>x\<rfloor>; d = x - of_int f
      in if d < 1 / 2 then f else if 1 / 2 < d then f + 1 else if even f then f else f + 1)"

definition fl :: "real \<Rightarrow> real" where
  "fl x =
     (if x = 0 then 0
      else (let q = pow2 (max (norm_exp 1100 \<bar>x\<bar> 0 - 52) (- 1074))
            in of_int (py_round (x / q)) * q))"

definition dbl_overflow :: "real \<Rightarrow> bool" where
  "dbl_overflow x = (2 ^ 1024 - 2 ^ 970 \<le> \<bar>x\<bar>)"

text \<open>
  \<open>float(s)\<close> for a text \<open>s\<close>: optional sign, then \<open>inf\<close>, \<open>infinity\<close> or \<open>nan\<close> in any
  case, or a decimal number with an optional fraction and an optional exponent, rounded
  to binary64.
\<close>

definition is_exp_mark :: "char \<Rightarrow> bool" where
  "is_exp_mark c = (c = CHR ''e'' \<or> c = CHR ''E'')"

definition parse_exponent :: "string \<Rightarrow> int option" where
  "parse_exponent s =
     (case s of
        [] \<Rightarrow> Some 0
      | _ # rest \<Rightarrow>
          (let (sg, ds) = split_sign rest
           in if valid_digits ds then Some (sg * digits_value ds) else None))"

definition pow10 :: "int \<Rightarrow> real" where
  "pow10 e = (if 0 \<le> e then 10 ^ nat e else 1 / 10 ^ nat (- e))"

definition parse_decimal :: "string \<Rightarrow> real option" where
  "parse_decimal body =
     (let mant = takeWhile (\<lambda>c. \<not> is_exp_mark c) body;
          ex = dropWhile (\<lambda>c. \<not> is_exp_mark c) body;
          ip = takeWhile (\<lambda>c. c \<noteq> CHR ''.'') mant;
          dotfrac = dropWhile (\<lambda>c. c \<noteq> CHR ''.'') mant;
          fp = (case dotfrac of [] \<Rightarrow> [] | _ # f \<Rightarrow> f)
      in if (ip = [] \<and> fp = []) \<or> (ip \<noteq> [] \<and> \<not> valid_digits ip)
            \<or> (fp \<noteq> [] \<and> \<not> valid_digits fp)
         then None
         else (case parse_exponent ex of
                 None \<Rightarrow> None
               | Some e \<Rightarrow>
                   Some ((real_of_int (digits_value ip)
                          + real_of_int (digits_value fp) / 10 ^ length (filter is_digit fp))
                         * pow10 e)))"

definition float_of_string :: "string \<Rightarrow> error + pyfloat" where
  "float_of_string s =
     (let (sg, body) = split_sign (strip_num s); w = lower body
      in if w = ''inf'' \<or> w = ''infinity'' then Inr (if sg < 0 then NInf else PInf)
         else if w = ''nan'' then Inr NaN
         else (case parse_decimal body of
                 None \<Rightarrow> Inl ValueError
               | Some r \<Rightarrow>
                   if dbl_overflow r then Inr (if sg < 0 then NInf else PInf)
                   else Inr (Fin (fl (real_of_int sg * r)))))"

text \<open>
  \<open>float(n)\<close> for an integer: the nearest binary64 value, \<open>OverflowError\<close> when there
  is none.
\<close>

definition float_of_int :: "int \<Rightarrow> error + real" where
  "float_of_int n =
     (if dbl_overflow (real_of_int n) then Inl OverflowError else Inr (fl (real_of_int n)))"

text \<open>\<open>int(v)\<close>: truncation towards zero for a float.\<close>

definition trunc :: "real \<Rightarrow> int" where
  "trunc r = (if 0 \<le> r then \<lfloor>r\<rfloor> else \<lceil>r\<rceil>)"

fun py_int :: "pyval \<Rightarrow> error + int" where
  "py_int PyNone = Inl TypeError"
| "py_int (PyBool b) = Inr (if b then 1 else 0)"
| "py_int (PyInt n) = Inr n"
| "py_int (PyFloat (Fin r)) = Inr (trunc r)"
| "py_int (PyFloat NaN) = Inl ValueError"
| "py_int (PyFloat _) = Inl OverflowError"
| "py_int (PyStr s) = int_of_string s"

fun py_float :: "pyval \<Rightarrow> error + pyfloat" where
  "py_float PyNone = Inl TypeError"
| "py_float (PyBool b) = Inr (Fin (if b then 1 else 0))"
| "py_float (PyInt n) = (case float_of_int n of Inl e \<Rightarrow> Inl e | Inr r \<Rightarrow> Inr (Fin r))"
| "py_float (PyFloat f) = Inr f"
| "py_float (PyStr s) = float_of_string s"

text \<open>
  \<open>str(v)\<close>, needed only where \<open>int(v)\<close> has raised: \<open>int\<close> succeeds on booleans,
  integers and finite floats, whose text is therefore never read and is left empty here.
\<close>

fun py_str :: "pyval \<Rightarrow> string" where
  "py_str (PyStr s) = s"
| "py_str PyNone = ''None''"
| "py_str (PyFloat PInf) = ''inf''"
| "py_str (PyFloat NInf) = ''-inf''"
| "py_str (PyFloat NaN) = ''nan''"
| "py_str _ = []"

text \<open>
  \<open>max(lo, min(hi, x))\<close> on floats.  Python's \<open>min\<close> and \<open>max\<close> keep their first
  argument unless the later one compares strictly smaller (greater); every comparison
  with NaN is false, so \<open>min(hi, nan)\<close> is \<open>hi\<close>.
\<close>

definition clamp :: "real \<Rightarrow> real \<Rightarrow> pyfloat \<Rightarrow> real" where
  "clamp lo hi x =
     (case x of Fin r \<Rightarrow> max lo (min hi r) | PInf \<Rightarrow> max lo hi | NInf \<Rightarrow> lo | NaN \<Rightarrow> max lo hi)"

text \<open>
  \<open>round(x)\<close> is \<open>py_round\<close> above: half to even.  \<open>round(x, 1)\<close> rounds the exact value
  of the float \<open>x\<close> to one decimal, half to even, and returns the binary64 value nearest
  to that decimal.
\<close>

definition round1 :: "real \<Rightarrow> real" where
  "round1 x = fl (of_int (py_round (x * 10)) / 10)"

section \<open>Severity mapping and risk scoring (3-metData)\<close>

definition name_level :: "string \<Rightarrow> int" where
  "name_level s =
     (if s \<in> set [''red'', ''emergency'', ''severe''] then 4
      else if s \<in> set [''orange'', ''warning''] then 3
      else if s \<in> set [''amber'', ''watch''] then 2
      else if s \<in> set [''yellow'', ''advisory'', ''info'', ''information''] then 1
      else 0)"

definition severity_to_level :: "pyval \<Rightarrow> int" where
  "severity_to_level sev =
     (if sev = PyNone then 0
      else (case py_int sev of
              Inr n \<Rightarrow> max 0 (min 4 n)
            | Inl _ \<Rightarrow> name_level (lower (strip (py_str sev)))))"

text \<open>
  The warning results are a JSON array from the weather service.  An entry is a dict, for
  which \<open>r.get(k)\<close> is \<open>None\<close> at a missing key, or some other value, on which
  \<open>r.get\<close> raises \<open>AttributeError\<close>.
\<close>

datatype warning_entry = Dict "string \<rightharpoonup> pyval" | NotDict pyval

definition dict_get :: "(string \<rightharpoonup> pyval) \<Rightarrow> string \<Rightarrow> pyval" where
  "dict_get r k = (case r k of None \<Rightarrow> PyNone | Some v \<Rightarrow> v)"

definition result_severity :: "(string \<rightharpoonup> pyval) \<Rightarrow> pyval" where
  "result_severity r =
     py_or (dict_get r ''severity'') (py_or (dict_get r ''level'') (dict_get r ''severity_level''))"

fun max_severity_loop :: "int \<Rightarrow> warning_entry list \<Rightarrow> error + int" where
  "max_severity_loop max_lv [] = Inr max_lv"
| "max_severity_loop max_lv (NotDict v # rs) = Inl AttributeError"
| "max_severity_loop max_lv (Dict r # rs) =
     (let lv = severity_to_level (result_severity r)
      in max_severity_loop (if lv > max_lv then lv else max_lv) rs)"

definition max_severity_level :: "warning_entry list \<Rightarrow> error + int" where
  "max_severity_level results = max_severity_loop 0 results"

definition classify :: "real \<Rightarrow> string \<times> string" where
  "classify final_score =
     (if final_score \<le> 3 then (''Low'', ''green'')
      else if final_score \<le> 6 then (''Moderate'', ''yellow'')
      else if final_score \<le> 8 then (''High'', ''orange'')
      else (''Critical'', ''red''))"

definition compute_final_risk :: "pyval \<Rightarrow> int \<Rightarrow> error + (real \<times> string \<times> string)" where
  "compute_final_risk nlp_urgency_score met_level =
     (case py_float (py_or nlp_urgency_score (PyFloat (Fin 0))) of
        Inl e \<Rightarrow> Inl e
      | Inr u \<Rightarrow>
          (case float_of_int met_level of
             Inl e \<Rightarrow> Inl e
           | Inr m \<Rightarrow>
               (let nlp = clamp 0 10 u;
                    met_norm = clamp 0 10 (Fin (fl (m * 2.5)));
                    final_score = round1 (fl (fl (nlp * 0.5) + fl (met_norm * 0.5)))
                in Inr (final_score, classify final_score))))"

definition recommendation_for_level :: "string \<Rightarrow> string" where
  "recommendation_for_level level =
     (let lvl = lower level
      in if lvl = ''critical''
         then ''Danger: Avoid travel in affected areas; move to higher ground and follow official instructions.''
         else if lvl = ''high''
         then ''High risk: Monitor official warnings, prepare evacuation plan, avoid low-lying areas.''
         else if lvl = ''moderate''
         then ''Moderate risk: Stay alert, check local advisories, avoid flood-prone roads.''
         else ''Low risk: No immediate action needed; stay informed of updates.'')"

subsection \<open>The persisted store\<close>

record risk_row =
  row_district :: pyval
  row_latitude :: pyval
  row_longitude :: pyval
  row_final_score :: real
  row_risk_level :: string
  row_recommendation :: string

type_synonym store = "risk_row list"

text \<open>
  \<open>db_insert_risk_assessment\<close>: any exception (a failing connection, here the flag
  \<open>db_ok\<close>, or a score that \<open>float\<close> rejects) is caught, nothing is written and the
  result is \<open>None\<close>.  The identifier is generated by the table's sequence.
\<close>

definition db_insert_risk_assessment ::
  "bool \<Rightarrow> store \<Rightarrow> pyval \<Rightarrow> pyval \<Rightarrow> pyval \<Rightarrow> pyval \<Rightarrow> string \<Rightarrow> store \<times> int option" where
  "db_insert_risk_assessment db_ok db district latitude longitude final_score risk_level =
     (case py_float final_score of
        Inl _ \<Rightarrow> (db, None)
      | Inr f \<Rightarrow>
          if \<not> db_ok then (db, None)
          else (let score = clamp 1 10 f;
                    rec = recommendation_for_level risk_level
                in (db @ [\<lparr>row_district = district, row_latitude = latitude,
                           row_longitude = longitude, row_final_score = score,
                           row_risk_level = risk_level, row_recommendation = rec\<rparr>],
                    Some (int (length db) + 1))))"

text \<open>
  The scoring request of \<open>lambda_handler\<close>, from the resolved location on: the warning
  results and the urgency are fused and the assessment is saved.  An exception of the
  severity scan or of the scoring is answered with status 500 and nothing is saved.
\<close>

record scoring_request =
  req_db_ok :: bool
  req_district :: pyval
  req_latitude :: pyval
  req_longitude :: pyval
  req_urgency :: pyval
  req_results :: "warning_entry list"

datatype risk_response =
    Risk200 real string string "int option"
  | Risk500 error

definition lambda_handler_met :: "store \<Rightarrow> scoring_request \<Rightarrow> risk_response \<times> store" where
  "lambda_handler_met db rq =
     (case max_severity_level (req_results rq) of
        Inl e \<Rightarrow> (Risk500 e, db)
      | Inr met_level \<Rightarrow>
          (case compute_final_risk (req_urgency rq) met_level of
             Inl e \<Rightarrow> (Risk500 e, db)
           | Inr (final_score, risk_level, color) \<Rightarrow>
               (let (db', assessment_id) =
                      db_insert_risk_assessment (req_db_ok rq) db (req_district rq)
                        (req_latitude rq) (req_longitude rq) (PyFloat (Fin final_score)) risk_level
                in (Risk200 final_score risk_level color assessment_id, db'))))"

text \<open>A stored row is well formed: score in [1,10], level as classified from it.\<close>

definition row_ok :: "risk_row \<Rightarrow> bool" where
  "row_ok r = (1 \<le> row_final_score r \<and> row_final_score r \<le> 10
               \<and> row_risk_level r = fst (classify (row_final_score r)))"

text \<open>A sequence of scoring requests against the store.\<close>

fun run_scoring :: "store \<Rightarrow> scoring_request list \<Rightarrow> store" where
  "run_scoring db [] = db"
| "run_scoring db (rq # rqs) = run_scoring (snd (lambda_handler_met db rq)) rqs"

section \<open>Hazard radii and route filtering (4-polyline)\<close>

subsection \<open>Great-circle distance\<close>

text \<open>
  \<open>haversine_km\<close> over the reals, for coordinates in degrees.  The argument of the
  square root is the haversine of the central angle and lies between 0 and 1 (lemma
  \<open>haversine_km_argument\<close> below).  In binary floating point the rounded argument can
  exceed 1 for nearly antipodal points, where \<open>math.asin\<close> raises; that failure of the
  float code is not part of this model.
\<close>

definition radians :: "real \<Rightarrow> real" where
  "radians x = x * pi / 180"

definition haversine_km :: "real \<Rightarrow> real \<Rightarrow> real \<Rightarrow> real \<Rightarrow> real" where
  "haversine_km lat1 lon1 lat2 lon2 =
     (let R = 6371;
          phi1 = radians lat1; phi2 = radians lat2;
          dphi = radians (lat2 - lat1);
          dlambda = radians (lon2 - lon1);
          a = (sin (dphi / 2))\<^sup>2 + cos phi1 * cos phi2 * (sin (dlambda / 2))\<^sup>2
      in 2 * R * arcsin (sqrt a))"

subsection \<open>Radius derivation\<close>

text \<open>
  The four base radii are module constants read once from the environment, with the
  defaults below.
\<close>

record radii =
  RADIUS_LOW_M :: int
  RADIUS_MEDIUM_M :: int
  RADIUS_HIGH_M :: int
  RADIUS_CRITICAL_M :: int

definition default_radii :: radii where
  "default_radii = \<lparr>RADIUS_LOW_M = 1500, RADIUS_MEDIUM_M = 3000,
                     RADIUS_HIGH_M = 6000, RADIUS_CRITICAL_M = 10000\<rparr>"

text \<open>The weather descriptor is a text or absent.\<close>

definition weather_scale :: "string option \<Rightarrow> real" where
  "weather_scale weather =
     (case weather of
        None \<Rightarrow> 1
      | Some t \<Rightarrow>
          if t = [] then 1
          else (let w = lower (strip t)
                in if w \<in> set [''storm'', ''thunderstorm'', ''heavy rain'', ''tropical storm'']
                   then 1.8
                   else if w \<in> set [''rain'', ''fog'', ''haze'', ''drizzle''] then 1.3
                   else 1))"

definition hazard_radius_from_level :: "radii \<Rightarrow> pyval \<Rightarrow> int" where
  "hazard_radius_from_level cfg level =
     (case level of
        PyStr t \<Rightarrow>
          (let l = lower (strip t)
           in if l \<in> set [''critical'', ''very high'', ''severe''] then RADIUS_CRITICAL_M cfg
              else if l \<in> set [''high''] then RADIUS_HIGH_M cfg
              else if l \<in> set [''medium'', ''moderate''] then RADIUS_MEDIUM_M cfg
              else RADIUS_LOW_M cfg)
      | _ \<Rightarrow> RADIUS_LOW_M cfg)"

text \<open>\<open>s >= k\<close> for a float \<open>s\<close> and an integer constant \<open>k\<close>.\<close>

fun float_ge :: "pyfloat \<Rightarrow> real \<Rightarrow> bool" where
  "float_ge (Fin r) k = (k \<le> r)"
| "float_ge PInf k = True"
| "float_ge NInf k = False"
| "float_ge NaN k = False"

definition hazard_radius_from_score :: "radii \<Rightarrow> pyval \<Rightarrow> int" where
  "hazard_radius_from_score cfg score =
     (case py_float score of
        Inl _ \<Rightarrow> RADIUS_LOW_M cfg
      | Inr s \<Rightarrow>
          if float_ge s 80 then RADIUS_CRITICAL_M cfg
          else if float_ge s 60 then RADIUS_HIGH_M cfg
          else if float_ge s 40 then RADIUS_MEDIUM_M cfg
          else RADIUS_LOW_M cfg)"

text \<open>
  A hazard is the dict built from a row of \<open>risk_assessments\<close>.  A key that may be missing
  is an option; a present key may still hold \<open>None\<close>.  The coordinates are numbers.
\<close>

record hazard =
  hz_id :: int
  district :: pyval
  lat :: real
  lng :: real
  final_score :: "pyval option"
  risk_level :: "pyval option"
  recommendation :: pyval
  calculated_at :: pyval
  radius_m :: "int option"

definition present :: "pyval option \<Rightarrow> bool" where
  "present f = (case f of None \<Rightarrow> False | Some v \<Rightarrow> v \<noteq> PyNone)"

definition opt_get :: "pyval option \<Rightarrow> pyval" where
  "opt_get f = (case f of None \<Rightarrow> PyNone | Some v \<Rightarrow> v)"

definition base_radius :: "radii \<Rightarrow> hazard \<Rightarrow> int" where
  "base_radius cfg hz =
     (if present (risk_level hz) then hazard_radius_from_level cfg (opt_get (risk_level hz))
      else if present (final_score hz) then hazard_radius_from_score cfg (opt_get (final_score hz))
      else RADIUS_LOW_M cfg)"

fun annotate_loop :: "radii \<Rightarrow> real \<Rightarrow> hazard list \<Rightarrow> hazard list" where
  "annotate_loop cfg scale [] = []"
| "annotate_loop cfg scale (hz # hzs) =
     hz\<lparr>radius_m := Some (py_round (real_of_int (base_radius cfg hz) * scale))\<rparr>
       # annotate_loop cfg scale hzs"

definition annotate_hazards_with_radius :: "radii \<Rightarrow> hazard list \<Rightarrow> string option \<Rightarrow> hazard list" where
  "annotate_hazards_with_radius cfg hazards weather =
     annotate_loop cfg (weather_scale weather) hazards"

subsection \<open>Route against hazards\<close>

type_synonym point = "real \<times> real"

text \<open>\<open>hz.get("radius_m") or hazard_radius_from_level(hz.get("risk_level"))\<close>\<close>

definition hazard_radius :: "radii \<Rightarrow> hazard \<Rightarrow> int" where
  "hazard_radius cfg hz =
     (case radius_m hz of
        Some r \<Rightarrow> if r \<noteq> 0 then r else hazard_radius_from_level cfg (opt_get (risk_level hz))
      | None \<Rightarrow> hazard_radius_from_level cfg (opt_get (risk_level hz)))"

definition dist_m :: "point \<Rightarrow> hazard \<Rightarrow> real" where
  "dist_m p hz = haversine_km (fst p) (snd p) (lat hz) (lng hz) * 1000"

fun point_in_hazards :: "radii \<Rightarrow> point \<Rightarrow> hazard list \<Rightarrow> bool" where
  "point_in_hazards cfg p [] = False"
| "point_in_hazards cfg p (hz # hzs) =
     (if dist_m p hz < real_of_int (hazard_radius cfg hz) then True
      else point_in_hazards cfg p hzs)"

fun route_intersects_hazard :: "radii \<Rightarrow> point list \<Rightarrow> hazard list \<Rightarrow> bool" where
  "route_intersects_hazard cfg [] hazards = False"
| "route_intersects_hazard cfg (p # ps) hazards =
     (if point_in_hazards cfg p hazards then True
      else route_intersects_hazard cfg ps hazards)"

subsection \<open>Route selection\<close>

text \<open>
  A candidate route as returned by the routing service; a duration, when present, is a
  text such as \<open>123s\<close>.  \<open>polyline.decode\<close> belongs to an external library and is a
  parameter \<open>decode\<close> of the model.
\<close>

record route =
  encodedPolyline :: "string option"
  duration :: "string option"
  distanceMeters :: "int option"

record scored_route =
  polyline :: string
  duration_s :: int
  distance_m :: int
  min_dist :: real

text \<open>\<open>min(...)\<close> of a sequence raises \<open>ValueError\<close> when the sequence is empty.\<close>

definition py_min :: "real list \<Rightarrow> error + real" where
  "py_min xs =
     (case xs of
        [] \<Rightarrow> Inl ValueError
      | x # rest \<Rightarrow> Inr (foldl (\<lambda>m y. if y < m then y else m) x rest))"

definition route_duration :: "route \<Rightarrow> error + int" where
  "route_duration r =
     (case duration r of
        None \<Rightarrow> Inr 0
      | Some d \<Rightarrow> int_of_string (filter (\<lambda>c. c \<noteq> CHR ''s'') d))"

fun score_routes ::
  "radii \<Rightarrow> (string \<Rightarrow> point list) \<Rightarrow> hazard list \<Rightarrow> route list \<Rightarrow> error + scored_route list" where
  "score_routes cfg decode hazards [] = Inr []"
| "score_routes cfg decode hazards (r # rs) =
     (case encodedPolyline r of
        None \<Rightarrow> Inl KeyError
      | Some enc \<Rightarrow>
          (let pts = decode enc
           in if route_intersects_hazard cfg pts hazards then score_routes cfg decode hazards rs
              else (case py_min (concat (map (\<lambda>hz. map (\<lambda>p. dist_m p hz) pts) hazards)) of
                      Inl e \<Rightarrow> Inl e
                    | Inr md \<Rightarrow>
                        (case route_duration r of
                           Inl e \<Rightarrow> Inl e
                         | Inr d \<Rightarrow>
                             (case score_routes cfg decode hazards rs of
                                Inl e \<Rightarrow> Inl e
                              | Inr scored \<Rightarrow>
                                  Inr (\<lparr>polyline = enc, duration_s = d,
                                        distance_m = (case distanceMeters r of None \<Rightarrow> 0 | Some m \<Rightarrow> m),
                                        min_dist = md\<rparr> # scored))))))"

datatype route_response =
    NoSafeRoutes "hazard list"
  | BestRoute scored_route "string list" "hazard list"
  | Error500 error

text \<open>
  \<open>lambda_handler\<close> from the fetched hazards and candidate routes on.  Any exception is
  answered with status 500 and the error text only.
\<close>

definition lambda_handler_routes ::
  "radii \<Rightarrow> (string \<Rightarrow> point list) \<Rightarrow> hazard list \<Rightarrow> route list \<Rightarrow> string option \<Rightarrow> route_response" where
  "lambda_handler_routes cfg decode hazards_raw routes weather =
     (let hazards = annotate_hazards_with_radius cfg hazards_raw weather
      in case score_routes cfg decode hazards routes of
           Inl e \<Rightarrow> Error500 e
         | Inr scored \<Rightarrow>
             if scored = [] then NoSafeRoutes hazards
             else (let best = hd (sort_key duration_s scored)
                   in BestRoute best
                        (map polyline (filter (\<lambda>r. polyline r \<noteq> polyline best) scored))
                        hazards))"

section \<open>Concrete inputs and auxiliary notions\<close>

text \<open>Two candidate routes of 100 and 50 seconds.\<close>

definition route_100 :: route where
  "route_100 = \<lparr>encodedPolyline = Some ''a'', duration = Some ''100s'', distanceMeters = Some 1000\<rparr>"

definition route_50 :: route where
  "route_50 = \<lparr>encodedPolyline = Some ''b'', duration = Some ''50s'', distanceMeters = Some 900\<rparr>"

text \<open>A row of \<open>risk_assessments\<close> as \<open>fetch_hazards\<close> returns it, at the given place.\<close>

definition hazard_row :: "real \<Rightarrow> real \<Rightarrow> pyval \<Rightarrow> pyval \<Rightarrow> hazard" where
  "hazard_row la lo score level =
     \<lparr>hz_id = 1, district = PyStr ''Selangor'', lat = la, lng = lo, final_score = Some score,
      risk_level = Some level, recommendation = PyNone, calculated_at = PyNone, radius_m = None\<rparr>"

text \<open>Two scoring requests: an amber warning with urgency 8, and no warning, no urgency.\<close>

definition request_amber :: scoring_request where
  "request_amber =
     \<lparr>req_db_ok = True, req_district = PyStr ''Selangor'', req_latitude = PyFloat (Fin 3.07),
      req_longitude = PyFloat (Fin 101.5), req_urgency = PyFloat (Fin 8),
      req_results = [Dict [''severity'' \<mapsto> PyStr ''Amber'']]\<rparr>"

definition request_quiet :: scoring_request where
  "request_quiet =
     \<lparr>req_db_ok = True, req_district = PyStr ''Selangor'', req_latitude = PyFloat (Fin 3.07),
      req_longitude = PyFloat (Fin 101.5), req_urgency = PyNone, req_results = []\<rparr>"


text \<open>The amber request with a text in place of the urgency number.\<close>

definition request_text_urgency :: scoring_request where
  "request_text_urgency = request_amber\<lparr>req_urgency := PyStr ''high''\<rparr>"


text \<open>
  Three hazard rows: one with a level, one with a score only, one with neither.
\<close>

definition hazards_three :: "hazard list" where
  "hazards_three =
     [hazard_row 3.1 101.6 (PyFloat (Fin 5)) (PyStr ''Moderate''),
      hazard_row 3.2 101.7 (PyFloat (Fin 85)) PyNone,
      hazard_row 3.3 101.8 PyNone PyNone]"

text \<open>
  The safe candidates: those with an encoded polyline none of whose decoded points is
  inside a hazard.  \<open>scored_from r s\<close>: the scored entry \<open>s\<close> belongs to candidate \<open>r\<close>.
\<close>

definition safe_routes :: "radii \<Rightarrow> (string \<Rightarrow> point list) \<Rightarrow> hazard list \<Rightarrow> route list \<Rightarrow> route list" where
  "safe_routes cfg decode hazards routes =
     filter (\<lambda>r. case encodedPolyline r of
                    None \<Rightarrow> False
                  | Some enc \<Rightarrow> \<not> route_intersects_hazard cfg (decode enc) hazards) routes"

definition scored_from :: "route \<Rightarrow> scored_route \<Rightarrow> bool" where
  "scored_from r s =
     (encodedPolyline r = Some (polyline s) \<and> route_duration r = Inr (duration_s s)
      \<and> distance_m s = (case distanceMeters r of None \<Rightarrow> 0 | Some m \<Rightarrow> m))"

text \<open>
  A Low hazard at the antimeridian, a decoder that puts every route at the origin of the
  coordinates, a second candidate with the polyline of \<open>route_100\<close>, and two
  candidates without a duration.
\<close>

definition hazard_far :: hazard where
  "hazard_far = hazard_row 0 180 (PyFloat (Fin 2)) (PyStr ''Low'')"

definition decode_origin :: "string \<Rightarrow> point list" where
  "decode_origin enc = [(0, 0)]"

definition route_same_path :: route where
  "route_same_path = \<lparr>encodedPolyline = Some ''a'', duration = Some ''50s'', distanceMeters = Some 1000\<rparr>"

definition route_no_duration :: route where
  "route_no_duration = \<lparr>encodedPolyline = Some ''c'', duration = None, distanceMeters = Some 1200\<rparr>"

definition route_no_duration_later :: route where
  "route_no_duration_later = \<lparr>encodedPolyline = Some ''d'', duration = None, distanceMeters = Some 700\<rparr>"

section \<open>Properties of the risk scoring\<close>

subsection \<open>Severity levels\<close>












subsection \<open>Binary64 rounding on the values of the fusion\<close>

lemma norm_exp_numeral:
  "norm_exp (numeral k) x e =
     (if 2 \<le> x then norm_exp (pred_numeral k) (x / 2) (e + 1)
      else if x < 1 then norm_exp (pred_numeral k) (x * 2) (e - 1)
      else e)"
  by (simp add: numeral_eq_Suc)

lemmas fl_eval = fl_def norm_exp_numeral pow2_def py_round_def Let_def

lemma fl_exact:
  "fl 0 = 0" "fl 1 = 1" "fl 2 = 2" "fl 3 = 3" "fl 4 = 4"
  "fl (5 / 4) = 5 / 4" "fl (5 / 2) = 5 / 2" "fl (15 / 4) = 15 / 4" "fl 5 = 5"
  "fl (15 / 2) = 15 / 2" "fl 10 = 10"
  by (simp_all add: fl_eval)

lemma float_of_int_small:
  assumes "0 \<le> m" and "m \<le> 4"
  shows "float_of_int m = Inr (real_of_int m)"
proof -
  have "m = 0 \<or> m = 1 \<or> m = 2 \<or> m = 3 \<or> m = 4" using assms by arith
  then show ?thesis
    by (auto simp: float_of_int_def dbl_overflow_def fl_exact)
qed

lemma met_half_exact:
  assumes "0 \<le> m" and "m \<le> 4"
  shows "fl (clamp 0 10 (Fin (fl (real_of_int m * 2.5))) * 0.5) = real_of_int m * 2.5 * 0.5"
proof -
  have "m = 0 \<or> m = 1 \<or> m = 2 \<or> m = 3 \<or> m = 4" using assms by arith
  then show ?thesis
    by (auto simp: fl_exact clamp_def)
qed

lemma py_round_nearest:
  "\<bar>real_of_int (py_round y) - y\<bar> \<le> 1 / 2
   \<and> (\<bar>real_of_int (py_round y) - y\<bar> = 1 / 2 \<longrightarrow> even (py_round y))"
proof -
  define f where "f = \<lfloor>y\<rfloor>"
  define d where "d = y - real_of_int f"
  have d: "0 \<le> d" "d < 1" unfolding d_def f_def by linarith+
  have y: "y = real_of_int f + d" by (simp add: d_def)
  have r: "py_round y =
      (if d < 1 / 2 then f else if 1 / 2 < d then f + 1 else if even f then f else f + 1)"
    by (simp add: py_round_def Let_def f_def d_def)
  consider "d < 1 / 2" | "1 / 2 < d" | "d = 1 / 2" "even f" | "d = 1 / 2" "odd f"
    by fastforce
  then show ?thesis
  proof cases
    case 1
    then have "py_round y = f" using r by simp
    then show ?thesis using 1 d by (simp add: d_def)
  next
    case 2
    then have "py_round y = f + 1" using r by simp
    then show ?thesis using 2 d by (simp add: d_def)
  next
    case 3
    then have "py_round y = f" using r by simp
    then show ?thesis using 3 by (simp add: d_def)
  next
    case 4
    then have "py_round y = f + 1" using r by simp
    then show ?thesis using 4 by (simp add: d_def)
  qed
qed


subsection \<open>Fusion\<close>

lemma clamp_Fin_id: "lo \<le> r \<Longrightarrow> r \<le> hi \<Longrightarrow> clamp lo hi (Fin r) = r"
  by (simp add: clamp_def)

lemma clamp_range:
  assumes "lo \<le> hi"
  shows "clamp lo hi x \<in> {lo..hi}"
  using assms by (cases x) (auto simp: clamp_def)

lemma py_or_zero_float: "py_float (py_or (PyFloat (Fin u)) (PyFloat (Fin 0))) = Inr (Fin u)"
  by (simp add: py_or_def)

lemma compute_final_risk_in_range:
  assumes "0 \<le> u" and "u \<le> 10" and "0 \<le> m" and "m \<le> 4"
  shows "compute_final_risk (PyFloat (Fin u)) m =
           Inr (round1 (fl (fl (u * 0.5) + real_of_int m * 2.5 * 0.5)),
                classify (round1 (fl (fl (u * 0.5) + real_of_int m * 2.5 * 0.5))))"
proof -
  have c1: "clamp 0 10 (Fin u) = u" using assms(1,2) by (rule clamp_Fin_id)
  show ?thesis
    unfolding compute_final_risk_def py_or_zero_float float_of_int_small [OF assms(3,4)]
      Let_def sum.case c1 met_half_exact [OF assms(3,4)] ..
qed

lemma fl_inputs: "fl (86 / 10) = 4841369599423283 / 2 ^ 49" "fl (62 / 10) = 6980579422424269 / 2 ^ 50"
  by (simp_all add: fl_eval)

lemma fusion_examples:
  "round1 (fl (fl (8 * 0.5) + real_of_int 2 * 2.5 * 0.5)) = 6.5"
  "round1 (fl (fl (6 * 0.5) + real_of_int 0 * 2.5 * 0.5)) = 3"
  "round1 (fl (fl (2 * 0.5) + real_of_int 4 * 2.5 * 0.5)) = 6"
  "round1 (fl (fl (6 * 0.5) + real_of_int 4 * 2.5 * 0.5)) = 8"
  "round1 (fl (fl (0.5 * 0.5) + real_of_int 0 * 2.5 * 0.5)) = fl 0.2"
  by (simp_all add: round1_def fl_eval)

lemma fusion_examples_rounded:
  "round1 (fl (fl (fl 8.6 * 0.5) + real_of_int 3 * 2.5 * 0.5)) = fl 8.1"
  "round1 (fl (fl (fl 6.2 * 0.5) + real_of_int 0 * 2.5 * 0.5)) = fl 3.1"
  by (simp_all add: round1_def fl_eval)

lemma fl_outputs: "fl (81 / 10) = 4559894622712627 / 2 ^ 49" "fl (31 / 10) = 6980579422424269 / 2 ^ 51"
  "fl (2 / 10) = 3602879701896397 / 2 ^ 54"
  by (simp_all add: fl_eval)


text \<open>
  C4.  For an urgency in [0,10] and a MET level in [0,4] the clamps are the identity and
  the products of the level are exact, so the score is
  \<open>round(urgency * 0.5 + metLevel * 2.5 * 0.5, 1)\<close> as binary64 arithmetic evaluates it: the
  float nearest to the one-decimal number \<open>k / 10\<close> that is nearest to the float sum, a tie
  going to the even \<open>k\<close>.  The score is classified with inclusive upper bounds 3, 6 and 8.
  Urgency 8 with level 2 gives 6.5, High, orange; urgency 8.6 with level 3 gives 8.1,
  Critical, red, because the float sum lies just above 8.05.
\<close>

theorem compute_final_risk_spec:
  assumes "0 \<le> u" and "u \<le> 10" and "0 \<le> m" and "m \<le> 4"
  shows "(\<exists>score k.
            compute_final_risk (PyFloat (Fin u)) m =
              Inr (score,
                   if score \<le> 3 then (''Low'', ''green'')
                   else if score \<le> 6 then (''Moderate'', ''yellow'')
                   else if score \<le> 8 then (''High'', ''orange'')
                   else (''Critical'', ''red''))
            \<and> score = round1 (fl (fl (u * 0.5) + real_of_int m * 2.5 * 0.5))
            \<and> score = fl (real_of_int k / 10)
            \<and> \<bar>real_of_int k / 10 - fl (fl (u * 0.5) + real_of_int m * 2.5 * 0.5)\<bar> \<le> 1 / 20
            \<and> (\<bar>real_of_int k / 10 - fl (fl (u * 0.5) + real_of_int m * 2.5 * 0.5)\<bar> = 1 / 20
                 \<longrightarrow> even k))
         \<and> compute_final_risk (PyFloat (Fin 8)) 2 = Inr (6.5, ''High'', ''orange'')
         \<and> compute_final_risk (PyFloat (Fin (fl 8.6))) 3 = Inr (fl 8.1, ''Critical'', ''red'')"
proof -
  define x where "x = fl (fl (u * 0.5) + real_of_int m * 2.5 * 0.5)"
  define k where "k = py_round (x * 10)"
  have gen: "compute_final_risk (PyFloat (Fin u)) m = Inr (round1 x, classify (round1 x))"
    unfolding x_def using assms by (rule compute_final_risk_in_range)
  have s: "round1 x = fl (real_of_int k / 10)" by (simp add: round1_def k_def)
  have n: "\<bar>real_of_int k - x * 10\<bar> \<le> 1 / 2
       \<and> (\<bar>real_of_int k - x * 10\<bar> = 1 / 2 \<longrightarrow> even k)"
    unfolding k_def by (rule py_round_nearest)
  have d: "\<bar>real_of_int k / 10 - x\<bar> = \<bar>real_of_int k - x * 10\<bar> / 10"
    by (simp add: abs_if field_simps)
  have n1: "\<bar>real_of_int k / 10 - x\<bar> \<le> 1 / 20" using n unfolding d by simp
  have n2: "\<bar>real_of_int k / 10 - x\<bar> = 1 / 20 \<longrightarrow> even k" using n unfolding d by simp
  have c: "classify (round1 x) =
      (if round1 x \<le> 3 then (''Low'', ''green'')
       else if round1 x \<le> 6 then (''Moderate'', ''yellow'')
       else if round1 x \<le> 8 then (''High'', ''orange'')
       else (''Critical'', ''red''))"
    by (simp add: classify_def)
  have first: "\<exists>score k.
            compute_final_risk (PyFloat (Fin u)) m =
              Inr (score,
                   if score \<le> 3 then (''Low'', ''green'')
                   else if score \<le> 6 then (''Moderate'', ''yellow'')
                   else if score \<le> 8 then (''High'', ''orange'')
                   else (''Critical'', ''red''))
            \<and> score = round1 x
            \<and> score = fl (real_of_int k / 10)
            \<and> \<bar>real_of_int k / 10 - x\<bar> \<le> 1 / 20
            \<and> (\<bar>real_of_int k / 10 - x\<bar> = 1 / 20 \<longrightarrow> even k)"
    using gen s n1 n2 unfolding c by blast
  have e1: "compute_final_risk (PyFloat (Fin 8)) 2 = Inr (6.5, ''High'', ''orange'')"
    using compute_final_risk_in_range [of 8 2] fusion_examples(1)
    by (simp add: classify_def)
  have b: "0 \<le> fl 8.6" "fl 8.6 \<le> 10" "\<not> fl 8.1 \<le> 8"
    by (simp_all add: fl_eval)
  have e2: "compute_final_risk (PyFloat (Fin (fl 8.6))) 3 = Inr (fl 8.1, ''Critical'', ''red'')"
    using compute_final_risk_in_range [OF b(1,2), of 3] fusion_examples_rounded(1) b(3)
    by (simp add: classify_def)
  show ?thesis using first e1 e2 unfolding x_def by blast
qed

theorem compute_final_risk_spec_witness:
  "compute_final_risk (PyFloat (Fin 6)) 0 = Inr (3, ''Low'', ''green'')
   \<and> compute_final_risk (PyFloat (Fin (fl 6.2))) 0 = Inr (fl 3.1, ''Moderate'', ''yellow'')
   \<and> compute_final_risk (PyFloat (Fin 2)) 4 = Inr (6, ''Moderate'', ''yellow'')
   \<and> compute_final_risk (PyFloat (Fin 6)) 4 = Inr (8, ''High'', ''orange'')
   \<and> compute_final_risk (PyFloat (Fin 0.5)) 0 = Inr (fl 0.2, ''Low'', ''green'')"
proof -
  have b: "0 \<le> fl 6.2" "fl 6.2 \<le> 10" "\<not> fl 3.1 \<le> 3" "fl 3.1 \<le> 6" "fl 0.2 \<le> 3"
    by (simp_all add: fl_eval)
  show ?thesis
    using compute_final_risk_spec [of 6 0] compute_final_risk_spec [OF b(1,2), of 0]
      compute_final_risk_spec [of 2 4] compute_final_risk_spec [of 6 4]
      compute_final_risk_spec [of "0.5" 0] fusion_examples fusion_examples_rounded(2) b(3,4,5)
    by auto
qed

subsection \<open>What reaches the store\<close>

lemma classify_clamp: "fst (classify (clamp 1 10 (Fin s))) = fst (classify s)"
  by (auto simp: classify_def clamp_def min_def max_def)

lemma compute_final_risk_level:
  "compute_final_risk u m = Inr (s, rl, c) \<Longrightarrow> rl = fst (classify s)"
  by (auto simp: compute_final_risk_def Let_def split: sum.splits)

lemma handler_met_rows:
  assumes "list_all row_ok db"
  shows "list_all row_ok (snd (lambda_handler_met db rq))"
proof (cases "max_severity_level (req_results rq)")
  case (Inl e)
  then show ?thesis using assms by (simp add: lambda_handler_met_def)
next
  case lv: (Inr met_level)
  show ?thesis
  proof (cases "compute_final_risk (req_urgency rq) met_level")
    case (Inl e)
    then show ?thesis using assms lv by (simp add: lambda_handler_met_def)
  next
    case (Inr t)
    obtain s rl c where t: "t = (s, rl, c)" by (cases t) auto
    have rl: "rl = fst (classify s)"
      using Inr t compute_final_risk_level by blast
    have b: "1 \<le> clamp 1 10 (Fin s) \<and> clamp 1 10 (Fin s) \<le> 10"
      using clamp_range [of 1 10 "Fin s"] by simp
    show ?thesis
      using assms lv Inr t rl b
      by (simp add: lambda_handler_met_def db_insert_risk_assessment_def row_ok_def
          classify_clamp Let_def)
  qed
qed

lemma run_scoring_rows: "list_all row_ok db \<Longrightarrow> list_all row_ok (run_scoring db rqs)"
  by (induction rqs arbitrary: db) (simp_all add: handler_met_rows)

text \<open>
  C9.  Over any sequence of scoring requests, every row of the store has its score in
  [1,10] and carries the level that the classification assigns to that stored score; so
  two rows with the same score carry the same level.  The level is computed from the score
  before the clamp, and the clamp never moves a score across a threshold.
\<close>

theorem persisted_rows_invariant:
  assumes "\<forall>r\<in>set db. 1 \<le> row_final_score r \<and> row_final_score r \<le> 10
             \<and> row_risk_level r = fst (classify (row_final_score r))"
  shows "(\<forall>r\<in>set (run_scoring db rqs). 1 \<le> row_final_score r \<and> row_final_score r \<le> 10
             \<and> row_risk_level r = fst (classify (row_final_score r)))
       \<and> (\<forall>r1\<in>set (run_scoring db rqs). \<forall>r2\<in>set (run_scoring db rqs).
             row_final_score r1 = row_final_score r2 \<longrightarrow> row_risk_level r1 = row_risk_level r2)"
proof -
  have "list_all row_ok db" using assms by (simp add: list_all_iff row_ok_def)
  then have "list_all row_ok (run_scoring db rqs)" by (rule run_scoring_rows)
  then have "\<forall>r\<in>set (run_scoring db rqs). 1 \<le> row_final_score r \<and> row_final_score r \<le> 10
             \<and> row_risk_level r = fst (classify (row_final_score r))"
    by (simp add: list_all_iff row_ok_def)
  then show ?thesis by metis
qed

lemma max_severity_amber: "max_severity_level [Dict [''severity'' \<mapsto> PyStr ''Amber'']] = Inr 2"
  by (simp add: max_severity_level_def result_severity_def dict_get_def py_or_def
      severity_to_level_def int_of_string_def strip_num_def is_num_space_def strip_def
      is_space_def valid_digits_def is_digit_def lower_def lower_char_def name_level_def)

lemma max_severity_nil: "max_severity_level [] = Inr 0"
  by (simp add: max_severity_level_def)

lemma fusion_amber: "compute_final_risk (PyFloat (Fin 8)) 2 = Inr (6.5, ''High'', ''orange'')"
  using compute_final_risk_in_range [of 8 2] fusion_examples(1) by (simp add: classify_def)

lemma fusion_quiet: "compute_final_risk PyNone 0 = Inr (0, ''Low'', ''green'')"
  by (simp add: compute_final_risk_def py_or_def float_of_int_def dbl_overflow_def fl_exact
      clamp_def round1_def py_round_def classify_def)

lemma run_scoring_example:
  "map (\<lambda>r. (row_final_score r, row_risk_level r))
     (run_scoring [] [request_amber, request_quiet]) = [(6.5, ''High''), (1, ''Low'')]"
  by (simp add: request_amber_def request_quiet_def lambda_handler_met_def max_severity_amber
      max_severity_nil fusion_amber fusion_quiet db_insert_risk_assessment_def clamp_def)

theorem persisted_rows_invariant_witness:
  "map (\<lambda>r. (row_final_score r, row_risk_level r))
     (run_scoring [] [request_amber, request_quiet]) = [(6.5, ''High''), (1, ''Low'')]
   \<and> list_all (\<lambda>r. 1 \<le> row_final_score r \<and> row_final_score r \<le> 10
                \<and> row_risk_level r = fst (classify (row_final_score r)))
        (run_scoring [] [request_amber, request_quiet])"
  using persisted_rows_invariant [of "[]" "[request_amber, request_quiet]"] run_scoring_example
  by (simp add: list_all_iff)

subsection \<open>Malformed numeric fields\<close>

lemma float_of_string_error: "float_of_string s = Inl e \<Longrightarrow> e = ValueError"
  by (auto simp: float_of_string_def Let_def split: prod.splits if_splits option.splits)

text \<open>
  The severity and score conversions catch the failure of the conversion and fall back to
  their default; the urgency conversion defaults only a falsy urgency.
\<close>

lemma severity_to_level_default:
  "py_int sev = Inl e \<Longrightarrow> name_level (lower (strip (py_str sev))) = 0 \<Longrightarrow> severity_to_level sev = 0"
  by (simp add: severity_to_level_def)

lemma hazard_radius_from_score_default:
  "py_float score = Inl e \<Longrightarrow> hazard_radius_from_score cfg score = RADIUS_LOW_M cfg"
  by (simp add: hazard_radius_from_score_def)

lemma compute_final_risk_falsy:
  "\<not> truthy u \<Longrightarrow> compute_final_risk u m = compute_final_risk (PyFloat (Fin 0)) m"
  by (simp add: compute_final_risk_def py_or_def)

lemma float_high: "float_of_string ''high'' = Inl ValueError"
  by (simp add: float_of_string_def strip_num_def is_num_space_def lower_def lower_char_def
      parse_decimal_def is_exp_mark_def valid_digits_def is_digit_def)

text \<open>
  C2.  With the text \<open>high\<close> as urgency and MET level 2, \<open>compute_final_risk\<close> raises
  \<open>ValueError\<close> where urgency 0 would give 2.5, Low, green; the handler answers with
  status 500 and saves nothing.
\<close>

theorem nonnumeric_urgency_raises:
  "compute_final_risk (PyStr ''high'') 2 = Inl ValueError
   \<and> compute_final_risk (PyFloat (Fin 0)) 2 = Inr (2.5, ''Low'', ''green'')
   \<and> lambda_handler_met db request_text_urgency = (Risk500 ValueError, db)"
proof -
  have a: "compute_final_risk (PyStr ''high'') m = Inl ValueError" for m
    by (simp add: compute_final_risk_def py_or_def float_high)
  have r: "round1 (fl (fl (0 * 0.5) + real_of_int 2 * 2.5 * 0.5)) = 2.5"
    by (simp add: round1_def fl_eval)
  have b: "compute_final_risk (PyFloat (Fin 0)) 2 = Inr (2.5, ''Low'', ''green'')"
    using compute_final_risk_in_range [of 0 2] r by (simp add: classify_def)
  have c: "lambda_handler_met db request_text_urgency = (Risk500 ValueError, db)"
    by (simp add: lambda_handler_met_def request_text_urgency_def request_amber_def
        max_severity_amber a)
  show ?thesis using a b c by simp
qed

section \<open>Properties of the radius model\<close>

lemma base_radius_radius_update [simp]:
  "base_radius cfg (hz\<lparr>radius_m := r\<rparr>) = base_radius cfg hz"
  by (simp add: base_radius_def)

lemma annotate_loop_idem:
  "annotate_loop cfg sc (annotate_loop cfg sc hzs) = annotate_loop cfg sc hzs"
  by (induction hzs) simp_all

lemma py_round_of_int [simp]: "py_round (of_int n) = n"
  by (simp add: py_round_def)

lemma py_round_numeral [simp]: "py_round (numeral k) = numeral k"
  by (simp add: py_round_def)

text \<open>
  C7.  Annotating an already annotated hazard list again, with the same weather, gives
  the same list and in particular the same radii: the radius is recomputed from the risk
  level or score and never from an earlier radius.
\<close>

theorem annotate_idempotent:
  "annotate_hazards_with_radius cfg (annotate_hazards_with_radius cfg hazards weather) weather
     = annotate_hazards_with_radius cfg hazards weather
   \<and> map radius_m (annotate_hazards_with_radius cfg
         (annotate_hazards_with_radius cfg hazards weather) weather)
     = map radius_m (annotate_hazards_with_radius cfg hazards weather)"
  by (simp add: annotate_hazards_with_radius_def annotate_loop_idem)

theorem annotate_idempotent_witness:
  "map radius_m (annotate_hazards_with_radius default_radii
      (annotate_hazards_with_radius default_radii
         [hazard_row 3.1 101.6 (PyFloat (Fin 9)) (PyStr ''Critical'')] (Some ''storm''))
      (Some ''storm'')) = [Some 18000]"
  using annotate_idempotent [of default_radii
      "[hazard_row 3.1 101.6 (PyFloat (Fin 9)) (PyStr ''Critical'')]" "Some ''storm''"]
  by (simp add: annotate_hazards_with_radius_def hazard_row_def base_radius_def present_def
      opt_get_def hazard_radius_from_level_def weather_scale_def lower_def lower_char_def
      strip_def is_space_def default_radii_def)

lemma annotate_loop_map:
  "annotate_loop cfg sc hzs =
     map (\<lambda>hz. hz\<lparr>radius_m := Some (py_round (real_of_int (base_radius cfg hz) * sc))\<rparr>) hzs"
  by (induction hzs) simp_all

lemma weather_scale_text:
  "weather_scale (Some t) =
     (let w = lower (strip t)
      in if w \<in> {''storm'', ''thunderstorm'', ''heavy rain'', ''tropical storm''} then 1.8
         else if w \<in> {''rain'', ''fog'', ''haze'', ''drizzle''} then 1.3
         else 1)"
  by (cases t) (simp_all add: weather_scale_def Let_def lower_def strip_def)

lemma critical_storm:
  "map radius_m (annotate_hazards_with_radius default_radii
      [hazard_row la lo score (PyStr ''Critical'')] (Some ''storm'')) = [Some 18000]"
  by (simp add: annotate_hazards_with_radius_def hazard_row_def base_radius_def present_def
      opt_get_def hazard_radius_from_level_def weather_scale_def lower_def lower_char_def
      strip_def is_space_def default_radii_def)

text \<open>
  C5, as the code has it.  Annotation changes nothing but \<open>radius_m\<close>, which becomes the
  base radius times the weather factor, rounded to an integer; the base radius comes from
  the risk level when one is present, else from the score when one is present, else it is
  the Low radius.  The weather factor is decided on the descriptor after trimming
  surrounding whitespace and lowering the case: 1.8 for the storm group, 1.3 for the rain
  group, 1 otherwise and for an absent descriptor.  A Critical hazard under \<open>storm\<close> with
  the default radii gets 18000 m.
\<close>

theorem annotate_radius_spec:
  "annotate_hazards_with_radius cfg hazards weather =
     map (\<lambda>hz. hz\<lparr>radius_m := Some (py_round (real_of_int
            (if present (risk_level hz) then hazard_radius_from_level cfg (opt_get (risk_level hz))
             else if present (final_score hz)
             then hazard_radius_from_score cfg (opt_get (final_score hz))
             else RADIUS_LOW_M cfg) * weather_scale weather))\<rparr>) hazards
   \<and> weather_scale None = 1
   \<and> weather_scale (Some t) =
       (let w = lower (strip t)
        in if w \<in> {''storm'', ''thunderstorm'', ''heavy rain'', ''tropical storm''} then 1.8
           else if w \<in> {''rain'', ''fog'', ''haze'', ''drizzle''} then 1.3
           else 1)
   \<and> map radius_m (annotate_hazards_with_radius default_radii
        [hazard_row la lo score (PyStr ''Critical'')] (Some ''storm'')) = [Some 18000]"
proof -
  have "annotate_hazards_with_radius cfg hazards weather =
     map (\<lambda>hz. hz\<lparr>radius_m := Some (py_round (real_of_int (base_radius cfg hz)
            * weather_scale weather))\<rparr>) hazards"
    by (simp add: annotate_hazards_with_radius_def annotate_loop_map)
  then have a: "annotate_hazards_with_radius cfg hazards weather =
     map (\<lambda>hz. hz\<lparr>radius_m := Some (py_round (real_of_int
            (if present (risk_level hz) then hazard_radius_from_level cfg (opt_get (risk_level hz))
             else if present (final_score hz)
             then hazard_radius_from_score cfg (opt_get (final_score hz))
             else RADIUS_LOW_M cfg) * weather_scale weather))\<rparr>) hazards"
    by (simp add: base_radius_def)
  have b: "weather_scale None = 1" by (simp add: weather_scale_def)
  show ?thesis using a b weather_scale_text [of t] critical_storm [of la lo score] by simp
qed

lemma scale_rain: "weather_scale (Some '' Rain'') = 1.3"
  by (simp add: weather_scale_def lower_def lower_char_def strip_def is_space_def)

theorem annotate_radius_spec_witness:
  "map radius_m (annotate_hazards_with_radius default_radii hazards_three (Some '' Rain''))
     = [Some 3900, Some 13000, Some 1950]"
  using annotate_radius_spec [of default_radii hazards_three "Some '' Rain''" "'' Rain''" 0 0 PyNone]
    scale_rain
  by (simp add: hazards_three_def hazard_row_def present_def opt_get_def
      hazard_radius_from_level_def hazard_radius_from_score_def lower_def lower_char_def
      strip_def is_space_def default_radii_def)

text \<open>
  The descriptor \<open>STORM\<close> is not one of the listed texts, yet it scales by 1.8.
\<close>

theorem weather_case_counterexample:
  "weather_scale (Some ''STORM'') \<noteq>
     (if ''STORM'' \<in> {''storm'', ''thunderstorm'', ''heavy rain'', ''tropical storm''} then 1.8
      else if ''STORM'' \<in> {''rain'', ''fog'', ''haze'', ''drizzle''} then 1.3 else 1)
   \<and> map radius_m (annotate_hazards_with_radius default_radii
        [hazard_row 3.1 101.6 (PyFloat (Fin 9)) (PyStr ''Critical'')] (Some ''STORM''))
      = [Some 18000]"
  by (simp add: annotate_hazards_with_radius_def hazard_row_def base_radius_def present_def
      opt_get_def hazard_radius_from_level_def weather_scale_def lower_def lower_char_def
      strip_def is_space_def default_radii_def)

section \<open>Properties of the route filter\<close>

text \<open>The haversine of the central angle lies between 0 and 1.\<close>

lemma sin_half_squared: "(sin (t / 2))\<^sup>2 = (1 - cos t) / 2" for t :: real
  using cos_double_sin [of "t / 2"] by simp

lemma cos_half_squared: "(cos (t / 2))\<^sup>2 = (1 + cos t) / 2" for t :: real
  using cos_double_cos [of "t / 2"] by simp

lemma haversine_argument_range:
  fixes p1 p2 dl :: real
  defines "a \<equiv> (sin ((p2 - p1) / 2))\<^sup>2 + cos p1 * cos p2 * (sin (dl / 2))\<^sup>2"
  shows "0 \<le> a \<and> a \<le> 1"
proof -
  define s where "s = (sin (dl / 2))\<^sup>2"
  define A where "A = (sin ((p2 - p1) / 2))\<^sup>2"
  define B where "B = (cos ((p1 + p2) / 2))\<^sup>2"
  have s: "0 \<le> s" "s \<le> 1" unfolding s_def by (simp_all add: abs_square_le_1)
  have A: "0 \<le> A" "A \<le> 1" unfolding A_def by (simp_all add: abs_square_le_1)
  have B: "0 \<le> B" "B \<le> 1" unfolding B_def by (simp_all add: abs_square_le_1)
  have "A + cos p1 * cos p2 = B"
    unfolding A_def B_def sin_half_squared cos_half_squared
    by (simp add: cos_add cos_diff field_simps)
  then have c: "cos p1 * cos p2 = B - A" by simp
  have "a = A + cos p1 * cos p2 * s" by (simp add: a_def A_def s_def)
  also have "\<dots> = A + (B - A) * s" by (simp only: c)
  also have "\<dots> = (1 - s) * A + s * B" by (simp add: algebra_simps)
  finally have "a = (1 - s) * A + s * B" .
  moreover have "0 \<le> (1 - s) * A + s * B" using s A B by simp
  moreover have "(1 - s) * A + s * B \<le> (1 - s) * 1 + s * 1"
    using s A B by (intro add_mono mult_left_mono) simp_all
  ultimately show ?thesis by simp
qed

lemma haversine_km_argument:
  "0 \<le> (sin (radians (lat2 - lat1) / 2))\<^sup>2
           + cos (radians lat1) * cos (radians lat2) * (sin (radians (lon2 - lon1) / 2))\<^sup>2
   \<and> (sin (radians (lat2 - lat1) / 2))\<^sup>2
           + cos (radians lat1) * cos (radians lat2) * (sin (radians (lon2 - lon1) / 2))\<^sup>2 \<le> 1"
proof -
  have "radians (lat2 - lat1) = radians lat2 - radians lat1"
    by (simp add: radians_def diff_divide_distrib left_diff_distrib)
  then show ?thesis
    using haversine_argument_range [of "radians lat2" "radians lat1" "radians (lon2 - lon1)"]
    by simp
qed

lemma haversine_same: "haversine_km la lo la lo = 0"
  by (simp add: haversine_km_def radians_def)

text \<open>Half the circumference of a sphere of radius 6371 km.\<close>

lemma haversine_antipode: "haversine_km 0 0 0 180 = 6371 * pi"
  by (simp add: haversine_km_def radians_def)



lemma route_intersects_no_hazards: "route_intersects_hazard cfg pts [] = False"
  by (induction pts) simp_all



text \<open>
  The radius a hazard is tested against is its \<open>radius_m\<close> when that is present and not
  0, and otherwise the base radius of its risk level.
\<close>

lemma hazard_radius_present: "radius_m h = Some r \<Longrightarrow> r \<noteq> 0 \<Longrightarrow> hazard_radius cfg h = r"
  by (simp add: hazard_radius_def)

lemma hazard_radius_fallback:
  "radius_m h = None \<or> radius_m h = Some 0 \<Longrightarrow>
     hazard_radius cfg h = hazard_radius_from_level cfg (opt_get (risk_level h))"
  by (auto simp: hazard_radius_def)












section \<open>Properties of the route selection\<close>

text \<open>Without hazards, the first candidate that has a polyline makes the handler fail.\<close>

lemma empty_hazards_raise:
  "encodedPolyline r = Some enc \<Longrightarrow>
     lambda_handler_routes cfg decode [] (r # rs) weather = Error500 ValueError"
  by (simp add: lambda_handler_routes_def annotate_hazards_with_radius_def
      route_intersects_no_hazards py_min_def)

text \<open>
  C1.  With an empty hazard list the two candidate routes of 100 and 50 seconds are both
  safe, but the minimum over the empty sequence of distances raises \<open>ValueError\<close>: the
  handler answers with status 500 instead of the 50 second route.
\<close>

theorem empty_hazards_error:
  "lambda_handler_routes cfg decode [] [route_100, route_50] weather = Error500 ValueError"
  by (simp add: lambda_handler_routes_def annotate_hazards_with_radius_def route_100_def
      route_intersects_no_hazards py_min_def)

text \<open>
  The head of the stable sort is the earliest element of minimal key: every element
  before it has a strictly larger key.
\<close>

lemma hd_sort_key_first_min:
  fixes f :: "'a \<Rightarrow> int"
  assumes "xs \<noteq> []"
  shows "\<exists>ys zs. xs = ys @ hd (sort_key f xs) # zs
           \<and> (\<forall>y\<in>set ys. f (hd (sort_key f xs)) < f y)
           \<and> (\<forall>z\<in>set zs. f (hd (sort_key f xs)) \<le> f z)"
proof -
  define s where "s = sort_key f xs"
  define b where "b = hd s"
  define P where "P = (\<lambda>y. f y = f b)"
  have "length s = length xs" by (simp add: s_def)
  then have "s \<noteq> []" using assms by auto
  then obtain t where s: "s = b # t" unfolding b_def by (cases s) simp_all
  have "sorted (map f s)" unfolding s_def by (rule sorted_sort_key)
  then have "\<forall>y\<in>set t. f b \<le> f y" unfolding s by simp
  moreover have "set xs = insert b (set t)"
    using s unfolding s_def by (metis set_sort list.simps(15))
  ultimately have minb: "\<forall>y\<in>set xs. f b \<le> f y" by simp
  have bx: "b \<in> set xs" using \<open>set xs = insert b (set t)\<close> by simp
  have "filter P s = b # filter P t" unfolding s P_def by simp
  moreover have "filter P s = filter P xs"
    unfolding P_def s_def by (rule sort_key_stable)
  ultimately have fx: "filter P xs = b # filter P t" by simp
  have "\<exists>x\<in>set xs. P x" using bx unfolding P_def by blast
  then obtain ys x zs where sp: "xs = ys @ x # zs" "P x" "\<forall>y\<in>set ys. \<not> P y"
    using split_list_first_prop [of xs P] by blast
  have "filter P ys = []" using sp(3) by (simp add: filter_empty_conv)
  then have "filter P xs = x # filter P zs" using sp(1,2) by simp
  then have "x = b" using fx by simp
  then have 1: "xs = ys @ b # zs" using sp(1) by simp
  have 2: "\<forall>y\<in>set ys. f b < f y"
  proof
    fix y assume y: "y \<in> set ys"
    then have "f b \<le> f y" using minb 1 by auto
    moreover have "f y \<noteq> f b" using sp(3) y unfolding P_def by blast
    ultimately show "f b < f y" by simp
  qed
  have 3: "\<forall>z\<in>set zs. f b \<le> f z" using minb 1 by auto
  show ?thesis using 1 2 3 unfolding b_def s_def by blast
qed

lemma score_routes_safe:
  "score_routes cfg decode hazards routes = Inr scored \<Longrightarrow>
     list_all2 scored_from (safe_routes cfg decode hazards routes) scored"
proof (induction routes arbitrary: scored)
  case Nil
  then show ?case by (simp add: safe_routes_def)
next
  case (Cons r rs)
  show ?case
  proof (cases "encodedPolyline r")
    case None
    then show ?thesis using Cons.prems by simp
  next
    case (Some enc)
    show ?thesis
    proof (cases "route_intersects_hazard cfg (decode enc) hazards")
      case True
      then show ?thesis using Cons Some by (simp add: safe_routes_def)
    next
      case False
      then obtain md d rest where
        "route_duration r = Inr d" and rest: "score_routes cfg decode hazards rs = Inr rest"
        and sc: "scored = \<lparr>polyline = enc, duration_s = d,
                    distance_m = (case distanceMeters r of None \<Rightarrow> 0 | Some m \<Rightarrow> m),
                    min_dist = md\<rparr> # rest"
        using Cons.prems Some by (auto simp: Let_def split: sum.splits)
      then show ?thesis
        using Cons.IH [OF rest] Some False by (simp add: safe_routes_def scored_from_def)
    qed
  qed
qed

text \<open>Evaluation of the selection on the concrete inputs.\<close>

lemma annotate_far:
  "annotate_hazards_with_radius default_radii [hazard_far] (Some ''clear'')
     = [hazard_far\<lparr>radius_m := Some 1500\<rparr>]"
  by (simp add: annotate_hazards_with_radius_def hazard_far_def hazard_row_def base_radius_def
      present_def opt_get_def hazard_radius_from_level_def weather_scale_def lower_def
      lower_char_def strip_def is_space_def default_radii_def)

lemma dist_far: "dist_m (0, 0) (hazard_far\<lparr>radius_m := Some 1500\<rparr>) = 6371000 * pi"
  by (simp add: dist_m_def hazard_far_def hazard_row_def haversine_antipode)

lemma origin_is_safe:
  "\<not> route_intersects_hazard default_radii (decode_origin enc) [hazard_far\<lparr>radius_m := Some 1500\<rparr>]"
proof -
  have "(1500 :: real) < 6371000 * pi" using pi_ge_two by simp
  then show ?thesis by (simp add: decode_origin_def hazard_radius_def dist_far)
qed

lemma parse_seconds:
  "route_duration route_100 = Inr 100" "route_duration route_50 = Inr 50"
  "route_duration route_same_path = Inr 50" "route_duration route_no_duration = Inr 0"
  "route_duration route_no_duration_later = Inr 0"
  by (simp_all add: route_duration_def route_100_def route_50_def route_same_path_def
      route_no_duration_def route_no_duration_later_def int_of_string_def strip_num_def is_num_space_def valid_digits_def
      is_digit_def digits_value_def digit_val_def)

lemma min_dist_origin:
  "py_min (concat (map (\<lambda>hz. map (\<lambda>p. dist_m p hz) (decode_origin enc))
      [hazard_far\<lparr>radius_m := Some 1500\<rparr>])) = Inr (6371000 * pi)"
  by (simp add: py_min_def decode_origin_def dist_far)

lemma score_routes_safe_step:
  assumes "encodedPolyline r = Some enc"
    and "\<not> route_intersects_hazard cfg (decode enc) hazards"
    and "py_min (concat (map (\<lambda>hz. map (\<lambda>p. dist_m p hz) (decode enc)) hazards)) = Inr md"
    and "route_duration r = Inr d"
    and "score_routes cfg decode hazards rs = Inr rest"
  shows "score_routes cfg decode hazards (r # rs) =
           Inr (\<lparr>polyline = enc, duration_s = d,
                 distance_m = (case distanceMeters r of None \<Rightarrow> 0 | Some m \<Rightarrow> m),
                 min_dist = md\<rparr> # rest)"
  using assms by (simp add: Let_def)

lemma score_one_route:
  assumes "encodedPolyline r = Some enc" and "route_duration r = Inr d"
    and "score_routes default_radii decode_origin [hazard_far\<lparr>radius_m := Some 1500\<rparr>] rs
           = Inr rest"
  shows "score_routes default_radii decode_origin [hazard_far\<lparr>radius_m := Some 1500\<rparr>]
           (r # rs) =
           Inr (\<lparr>polyline = enc, duration_s = d,
                 distance_m = (case distanceMeters r of None \<Rightarrow> 0 | Some m \<Rightarrow> m),
                 min_dist = 6371000 * pi\<rparr> # rest)"
  using assms(1) origin_is_safe min_dist_origin assms(2,3) by (rule score_routes_safe_step)

lemma score_two_routes:
  "score_routes default_radii decode_origin [hazard_far\<lparr>radius_m := Some 1500\<rparr>]
     [route_100, route_50]
   = Inr [\<lparr>polyline = ''a'', duration_s = 100, distance_m = 1000, min_dist = 6371000 * pi\<rparr>,
          \<lparr>polyline = ''b'', duration_s = 50, distance_m = 900, min_dist = 6371000 * pi\<rparr>]"
proof -
  have "score_routes default_radii decode_origin [hazard_far\<lparr>radius_m := Some 1500\<rparr>]
          [route_50]
        = Inr [\<lparr>polyline = ''b'', duration_s = 50, distance_m = 900, min_dist = 6371000 * pi\<rparr>]"
    using score_one_route [of route_50 "''b''" 50 "[]" "[]"] parse_seconds(2)
    by (simp add: route_50_def)
  then show ?thesis
    using score_one_route [of route_100 "''a''" 100 "[route_50]"] parse_seconds(1)
    by (simp add: route_100_def)
qed

lemma score_same_path:
  "score_routes default_radii decode_origin [hazard_far\<lparr>radius_m := Some 1500\<rparr>]
     [route_100, route_same_path]
   = Inr [\<lparr>polyline = ''a'', duration_s = 100, distance_m = 1000, min_dist = 6371000 * pi\<rparr>,
          \<lparr>polyline = ''a'', duration_s = 50, distance_m = 1000, min_dist = 6371000 * pi\<rparr>]"
proof -
  have "score_routes default_radii decode_origin [hazard_far\<lparr>radius_m := Some 1500\<rparr>]
          [route_same_path]
        = Inr [\<lparr>polyline = ''a'', duration_s = 50, distance_m = 1000, min_dist = 6371000 * pi\<rparr>]"
    using score_one_route [of route_same_path "''a''" 50 "[]" "[]"] parse_seconds(3)
    by (simp add: route_same_path_def)
  then show ?thesis
    using score_one_route [of route_100 "''a''" 100 "[route_same_path]"] parse_seconds(1)
    by (simp add: route_100_def)
qed

lemma score_no_duration:
  "score_routes default_radii decode_origin [hazard_far\<lparr>radius_m := Some 1500\<rparr>]
     [route_100, route_no_duration]
   = Inr [\<lparr>polyline = ''a'', duration_s = 100, distance_m = 1000, min_dist = 6371000 * pi\<rparr>,
          \<lparr>polyline = ''c'', duration_s = 0, distance_m = 1200, min_dist = 6371000 * pi\<rparr>]"
proof -
  have "score_routes default_radii decode_origin [hazard_far\<lparr>radius_m := Some 1500\<rparr>]
          [route_no_duration]
        = Inr [\<lparr>polyline = ''c'', duration_s = 0, distance_m = 1200, min_dist = 6371000 * pi\<rparr>]"
    using score_one_route [of route_no_duration "''c''" 0 "[]" "[]"] parse_seconds(4)
    by (simp add: route_no_duration_def)
  then show ?thesis
    using score_one_route [of route_100 "''a''" 100 "[route_no_duration]"] parse_seconds(1)
    by (simp add: route_100_def)
qed

text \<open>
  C6, as the code has it.  Whenever scoring completes without an exception, the scored
  entries are exactly the safe candidates in candidate order.  With none, the answer is
  ``no safe routes'' together with the annotated hazards.  Otherwise the best route is the
  head of the stable sort by \<open>duration_s\<close>, that is the earliest candidate of minimal
  duration; the alternatives are the polylines of the safe routes whose polyline differs
  from the best one's, in candidate order; and the annotated hazards are part of the
  answer.
\<close>

theorem route_selection_spec:
  assumes "score_routes cfg decode (annotate_hazards_with_radius cfg hazards_raw weather) routes
             = Inr scored"
  shows "list_all2 scored_from
           (safe_routes cfg decode (annotate_hazards_with_radius cfg hazards_raw weather) routes)
           scored
       \<and> (scored = [] \<longrightarrow> lambda_handler_routes cfg decode hazards_raw routes weather
             = NoSafeRoutes (annotate_hazards_with_radius cfg hazards_raw weather))
       \<and> (scored \<noteq> [] \<longrightarrow>
            (\<exists>best ys zs.
               lambda_handler_routes cfg decode hazards_raw routes weather
                 = BestRoute best
                     (map polyline (filter (\<lambda>r. polyline r \<noteq> polyline best) scored))
                     (annotate_hazards_with_radius cfg hazards_raw weather)
               \<and> best = hd (sort_key duration_s scored)
               \<and> sorted (map duration_s (sort_key duration_s scored))
               \<and> (\<forall>k. filter (\<lambda>r. duration_s r = k) (sort_key duration_s scored)
                        = filter (\<lambda>r. duration_s r = k) scored)
               \<and> scored = ys @ best # zs
               \<and> (\<forall>y\<in>set ys. duration_s best < duration_s y)
               \<and> (\<forall>z\<in>set zs. duration_s best \<le> duration_s z)))"
proof -
  let ?hz = "annotate_hazards_with_radius cfg hazards_raw weather"
  have a: "list_all2 scored_from (safe_routes cfg decode ?hz routes) scored"
    using assms by (rule score_routes_safe)
  have b: "scored = [] \<longrightarrow> lambda_handler_routes cfg decode hazards_raw routes weather
             = NoSafeRoutes ?hz"
    using assms by (simp add: lambda_handler_routes_def)
  have c: "scored \<noteq> [] \<longrightarrow>
            (\<exists>best ys zs.
               lambda_handler_routes cfg decode hazards_raw routes weather
                 = BestRoute best
                     (map polyline (filter (\<lambda>r. polyline r \<noteq> polyline best) scored)) ?hz
               \<and> best = hd (sort_key duration_s scored)
               \<and> sorted (map duration_s (sort_key duration_s scored))
               \<and> (\<forall>k. filter (\<lambda>r. duration_s r = k) (sort_key duration_s scored)
                        = filter (\<lambda>r. duration_s r = k) scored)
               \<and> scored = ys @ best # zs
               \<and> (\<forall>y\<in>set ys. duration_s best < duration_s y)
               \<and> (\<forall>z\<in>set zs. duration_s best \<le> duration_s z))"
  proof
    assume ne: "scored \<noteq> []"
    let ?best = "hd (sort_key duration_s scored)"
    obtain ys zs where sp: "scored = ys @ ?best # zs"
        "\<forall>y\<in>set ys. duration_s ?best < duration_s y"
        "\<forall>z\<in>set zs. duration_s ?best \<le> duration_s z"
      using hd_sort_key_first_min [OF ne, of duration_s] by blast
    have h: "lambda_handler_routes cfg decode hazards_raw routes weather
                 = BestRoute ?best
                     (map polyline (filter (\<lambda>r. polyline r \<noteq> polyline ?best) scored)) ?hz"
      using assms ne by (simp add: lambda_handler_routes_def Let_def)
    have st: "\<forall>k. filter (\<lambda>r. duration_s r = k) (sort_key duration_s scored)
                        = filter (\<lambda>r. duration_s r = k) scored"
      by (simp add: sort_key_stable)
    show "\<exists>best ys zs.
               lambda_handler_routes cfg decode hazards_raw routes weather
                 = BestRoute best
                     (map polyline (filter (\<lambda>r. polyline r \<noteq> polyline best) scored)) ?hz
               \<and> best = hd (sort_key duration_s scored)
               \<and> sorted (map duration_s (sort_key duration_s scored))
               \<and> (\<forall>k. filter (\<lambda>r. duration_s r = k) (sort_key duration_s scored)
                        = filter (\<lambda>r. duration_s r = k) scored)
               \<and> scored = ys @ best # zs
               \<and> (\<forall>y\<in>set ys. duration_s best < duration_s y)
               \<and> (\<forall>z\<in>set zs. duration_s best \<le> duration_s z)"
      using h st sp sorted_sort_key [of duration_s scored] by blast
  qed
  show ?thesis using a b c by blast
qed

theorem route_selection_spec_witness:
  "lambda_handler_routes default_radii decode_origin [hazard_far] [route_100, route_50]
     (Some ''clear'')
   = BestRoute \<lparr>polyline = ''b'', duration_s = 50, distance_m = 900, min_dist = 6371000 * pi\<rparr>
       [''a''] [hazard_far\<lparr>radius_m := Some 1500\<rparr>]"
  using route_selection_spec [of default_radii decode_origin "[hazard_far]" "Some ''clear''"
      "[route_100, route_50]"
      "[\<lparr>polyline = ''a'', duration_s = 100, distance_m = 1000, min_dist = 6371000 * pi\<rparr>,
        \<lparr>polyline = ''b'', duration_s = 50, distance_m = 900, min_dist = 6371000 * pi\<rparr>]"]
    score_two_routes
  by (simp add: annotate_far)

lemma score_two_no_duration:
  "score_routes default_radii decode_origin [hazard_far\<lparr>radius_m := Some 1500\<rparr>]
     [route_no_duration, route_no_duration_later]
   = Inr [\<lparr>polyline = ''c'', duration_s = 0, distance_m = 1200, min_dist = 6371000 * pi\<rparr>,
          \<lparr>polyline = ''d'', duration_s = 0, distance_m = 700, min_dist = 6371000 * pi\<rparr>]"
proof -
  have "score_routes default_radii decode_origin [hazard_far\<lparr>radius_m := Some 1500\<rparr>]
          [route_no_duration_later]
        = Inr [\<lparr>polyline = ''d'', duration_s = 0, distance_m = 700, min_dist = 6371000 * pi\<rparr>]"
    using score_one_route [of route_no_duration_later "''d''" 0 "[]" "[]"] parse_seconds(5)
    by (simp add: route_no_duration_later_def)
  then show ?thesis
    using score_one_route [of route_no_duration "''c''" 0 "[route_no_duration_later]"]
      parse_seconds(4)
    by (simp add: route_no_duration_def)
qed

text \<open>
  Two safe candidates with the same encoded polyline: the faster one is the best route and
  the other one is not among the alternatives.
\<close>

theorem same_polyline_counterexample:
  "lambda_handler_routes default_radii decode_origin [hazard_far] [route_100, route_same_path]
     (Some ''clear'')
   = BestRoute \<lparr>polyline = ''a'', duration_s = 50, distance_m = 1000, min_dist = 6371000 * pi\<rparr>
       [] [hazard_far\<lparr>radius_m := Some 1500\<rparr>]
   \<and> safe_routes default_radii decode_origin [hazard_far\<lparr>radius_m := Some 1500\<rparr>]
        [route_100, route_same_path] = [route_100, route_same_path]
   \<and> route_100 \<noteq> route_same_path"
  using score_same_path
  by (simp add: lambda_handler_routes_def annotate_far safe_routes_def origin_is_safe
      route_100_def route_same_path_def)

lemma safe_route_scored:
  assumes "score_routes cfg decode hazards routes = Inr scored"
    and "r \<in> set routes" and "encodedPolyline r = Some enc"
    and "\<not> route_intersects_hazard cfg (decode enc) hazards"
  shows "\<exists>sr\<in>set scored. scored_from r sr"
proof -
  have "list_all2 scored_from (safe_routes cfg decode hazards routes) scored"
    using assms(1) by (rule score_routes_safe)
  moreover have "r \<in> set (safe_routes cfg decode hazards routes)"
    using assms(2,3,4) by (simp add: safe_routes_def)
  ultimately obtain i where i: "i < length (safe_routes cfg decode hazards routes)"
      "safe_routes cfg decode hazards routes ! i = r"
      and l: "list_all2 scored_from (safe_routes cfg decode hazards routes) scored"
    by (auto simp: in_set_conv_nth)
  have "scored_from r (scored ! i)" using list_all2_nthD [OF l i(1)] i(2) by simp
  moreover have "scored ! i \<in> set scored"
    using list_all2_lengthD [OF l] i(1) by simp
  ultimately show ?thesis by blast
qed

text \<open>
  C10, as the code has it.  When the scoring of the candidates completes, a safe candidate
  without a duration field is scored with \<open>duration_s = 0\<close>; in the sorted order only
  entries of duration at most 0 come before it, so it is ahead of every route of positive
  duration; and when every other safe route has a positive duration it is the best route
  of the answer.
\<close>

theorem missing_duration_first:
  assumes "score_routes cfg decode (annotate_hazards_with_radius cfg hazards_raw weather) routes
             = Inr scored"
    and "r \<in> set routes" and "encodedPolyline r = Some enc" and "duration r = None"
    and "\<not> route_intersects_hazard cfg (decode enc)
            (annotate_hazards_with_radius cfg hazards_raw weather)"
  shows "\<exists>sr\<in>set scored. polyline sr = enc \<and> duration_s sr = 0
           \<and> (\<exists>ys zs. sort_key duration_s scored = ys @ sr # zs
                  \<and> (\<forall>y\<in>set ys. duration_s y \<le> 0))
           \<and> ((\<forall>x\<in>set scored. x \<noteq> sr \<longrightarrow> 0 < duration_s x) \<longrightarrow>
                lambda_handler_routes cfg decode hazards_raw routes weather
                  = BestRoute sr
                      (map polyline (filter (\<lambda>x. polyline x \<noteq> polyline sr) scored))
                      (annotate_hazards_with_radius cfg hazards_raw weather))"
proof -
  let ?hz = "annotate_hazards_with_radius cfg hazards_raw weather"
  let ?s = "sort_key duration_s scored"
  obtain sr where sr: "sr \<in> set scored" "scored_from r sr"
    using safe_route_scored [OF assms(1,2,3,5)] by blast
  have p: "polyline sr = enc" using sr(2) assms(3) by (simp add: scored_from_def)
  have "route_duration r = Inr 0" using assms(4) by (simp add: route_duration_def)
  then have d: "duration_s sr = 0" using sr(2) by (simp add: scored_from_def)
  have "sr \<in> set ?s" using sr(1) by simp
  then obtain ys zs where sp: "?s = ys @ sr # zs" by (meson split_list)
  have "sorted (map duration_s ?s)" by (rule sorted_sort_key)
  then have "sorted (map duration_s ys @ duration_s sr # map duration_s zs)"
    unfolding sp by simp
  then have before: "\<forall>y\<in>set ys. duration_s y \<le> 0"
    using d by (auto simp: sorted_append)
  have best: "lambda_handler_routes cfg decode hazards_raw routes weather
                  = BestRoute sr
                      (map polyline (filter (\<lambda>x. polyline x \<noteq> polyline sr) scored)) ?hz"
    if pos: "\<forall>x\<in>set scored. x \<noteq> sr \<longrightarrow> 0 < duration_s x"
  proof -
    have ne: "scored \<noteq> []" using sr(1) by auto
    let ?b = "hd ?s"
    obtain us vs where m: "scored = us @ ?b # vs"
        "\<forall>y\<in>set us. duration_s ?b < duration_s y" "\<forall>z\<in>set vs. duration_s ?b \<le> duration_s z"
      using hd_sort_key_first_min [OF ne, of duration_s] by blast
    have bin: "?b \<in> set scored" using m(1) by (metis in_set_conv_decomp)
    have "duration_s ?b \<le> duration_s sr"
      using m sr(1) by (metis Un_iff order_less_imp_le order_refl set_ConsD set_append)
    then have "\<not> 0 < duration_s ?b" using d by simp
    then have "?b = sr" using pos bin by blast
    then show ?thesis using assms(1) ne by (simp add: lambda_handler_routes_def Let_def)
  qed
  show ?thesis using sr(1) p d sp before best by blast
qed

theorem missing_duration_first_witness:
  "lambda_handler_routes default_radii decode_origin [hazard_far] [route_100, route_no_duration]
     (Some ''clear'')
   = BestRoute \<lparr>polyline = ''c'', duration_s = 0, distance_m = 1200, min_dist = 6371000 * pi\<rparr>
       [''a''] [hazard_far\<lparr>radius_m := Some 1500\<rparr>]"
proof -
  let ?scored = "[\<lparr>polyline = ''a'', duration_s = 100, distance_m = 1000, min_dist = 6371000 * pi\<rparr>,
        \<lparr>polyline = ''c'', duration_s = 0, distance_m = 1200, min_dist = 6371000 * pi\<rparr>]"
  have sc: "score_routes default_radii decode_origin
              (annotate_hazards_with_radius default_radii [hazard_far] (Some ''clear''))
              [route_100, route_no_duration] = Inr ?scored"
    using score_no_duration by (simp add: annotate_far)
  have safe: "\<not> route_intersects_hazard default_radii (decode_origin ''c'')
            (annotate_hazards_with_radius default_radii [hazard_far] (Some ''clear''))"
    using origin_is_safe by (simp add: annotate_far)
  have "\<exists>sr\<in>set ?scored. polyline sr = ''c'' \<and> duration_s sr = 0
           \<and> (\<exists>ys zs. sort_key duration_s ?scored = ys @ sr # zs
                  \<and> (\<forall>y\<in>set ys. duration_s y \<le> 0))
           \<and> ((\<forall>x\<in>set ?scored. x \<noteq> sr \<longrightarrow> 0 < duration_s x) \<longrightarrow>
                lambda_handler_routes default_radii decode_origin [hazard_far]
                    [route_100, route_no_duration] (Some ''clear'')
                  = BestRoute sr
                      (map polyline (filter (\<lambda>x. polyline x \<noteq> polyline sr) ?scored))
                      (annotate_hazards_with_radius default_radii [hazard_far] (Some ''clear'')))"
    by (rule missing_duration_first [where r = route_no_duration, OF sc _ _ _ safe])
       (simp_all add: route_no_duration_def)
  then show ?thesis by (simp add: annotate_far)
qed

text \<open>
  Of two safe candidates without a duration the first one is the best route and the second
  one only an alternative; and without hazards a candidate without a duration is safe, but
  the handler answers with status 500.
\<close>

theorem later_missing_duration_counterexample:
  "lambda_handler_routes default_radii decode_origin [hazard_far]
     [route_no_duration, route_no_duration_later] (Some ''clear'')
   = BestRoute \<lparr>polyline = ''c'', duration_s = 0, distance_m = 1200, min_dist = 6371000 * pi\<rparr>
       [''d''] [hazard_far\<lparr>radius_m := Some 1500\<rparr>]
   \<and> safe_routes default_radii decode_origin [hazard_far\<lparr>radius_m := Some 1500\<rparr>]
        [route_no_duration, route_no_duration_later] = [route_no_duration, route_no_duration_later]
   \<and> duration route_no_duration_later = None
   \<and> safe_routes default_radii decode_origin [] [route_no_duration] = [route_no_duration]
   \<and> lambda_handler_routes default_radii decode_origin [] [route_no_duration] None
       = Error500 ValueError"
proof -
  have a: "lambda_handler_routes default_radii decode_origin [hazard_far]
     [route_no_duration, route_no_duration_later] (Some ''clear'')
   = BestRoute \<lparr>polyline = ''c'', duration_s = 0, distance_m = 1200, min_dist = 6371000 * pi\<rparr>
       [''d''] [hazard_far\<lparr>radius_m := Some 1500\<rparr>]"
    using score_two_no_duration by (simp add: lambda_handler_routes_def annotate_far)
  have b: "safe_routes default_radii decode_origin [hazard_far\<lparr>radius_m := Some 1500\<rparr>]
        [route_no_duration, route_no_duration_later] = [route_no_duration, route_no_duration_later]"
    by (simp add: safe_routes_def origin_is_safe route_no_duration_def
        route_no_duration_later_def)
  have c: "duration route_no_duration_later = None"
    by (simp add: route_no_duration_later_def)
  have d: "safe_routes default_radii decode_origin [] [route_no_duration] = [route_no_duration]"
    by (simp add: safe_routes_def route_intersects_no_hazards route_no_duration_def)
  have e: "lambda_handler_routes default_radii decode_origin [] [route_no_duration] None
       = Error500 ValueError"
    by (rule empty_hazards_raise [of _ "''c''"]) (simp add: route_no_duration_def)
  show ?thesis using a b c d e by blast
qed

end
